theory Spec2Isabelle
  imports Main "HOL-Library.Char_ord" "HOL-Library.List_Lexorder" "HOL-Library.Product_Lexorder"
begin

section \<open>Inventory ledger of app.py\<close>

text \<open>
  The program is a Streamlit script over three worksheets, \<open>Productos\<close>, \<open>Ventas\<close> and
  \<open>Compras\<close>, read with \<open>load_data\<close> into data frames and written back whole with
  \<open>set_with_dataframe\<close>. Each form handler is modelled as a function from the worksheets
  (and the widget values) to the message shown and the worksheets afterwards. A Python
  exception that reaches the top of the script is the outcome \<open>Raised\<close>; the worksheets
  returned with it are those written before the exception.

  Numbers are integers throughout: a spreadsheet cell is an integer, a text, or empty
  (pandas' NaN). Fractional numbers and floating point are outside the model.
\<close>

subsection \<open>Cells and the conversions the code applies to them\<close>

datatype cell = Num int | Str string | NaN

datatype exn = ValueError | IndexError

text \<open>
  \<open>df["Nombre"] == producto_seleccionado\<close> (lines 155, 183, 208, 233): element-wise
  equality; NaN equals nothing, itself included.
\<close>

definition cell_eq :: "cell \<Rightarrow> cell \<Rightarrow> bool" where
  "cell_eq a b = (a \<noteq> NaN \<and> a = b)"

definition is_space :: "char \<Rightarrow> bool" where
  "is_space c = (c \<in> set [CHR 0x20, CHR 0x09, CHR 0x0A, CHR 0x0B, CHR 0x0C, CHR 0x0D])"

definition strip :: "string \<Rightarrow> string" where
  "strip s = rev (dropWhile is_space (rev (dropWhile is_space s)))"

definition digit_val :: "char \<Rightarrow> int option" where
  "digit_val c =
     (if CHR ''0'' \<le> c \<and> c \<le> CHR ''9'' then Some (int (of_char c) - 48) else None)"

text \<open>
  The digits of a Python integer literal: decimal digits, with single underscores
  allowed between two digits when \<open>us\<close> is set. \<open>prev\<close> records that the character before
  was a digit.
\<close>

fun parse_digits :: "bool \<Rightarrow> int \<Rightarrow> bool \<Rightarrow> string \<Rightarrow> int option" where
  "parse_digits us acc prev [] = (if prev then Some acc else None)"
| "parse_digits us acc prev (c # cs) =
     (if c = CHR ''_'' then
        (if us \<and> prev \<and> cs \<noteq> [] then parse_digits us acc False cs else None)
      else (case digit_val c of
              None \<Rightarrow> None
            | Some d \<Rightarrow> parse_digits us (10 * acc + d) True cs))"

definition parse_signed :: "bool \<Rightarrow> string \<Rightarrow> int option" where
  "parse_signed us s =
     (case strip s of
        [] \<Rightarrow> None
      | c # cs \<Rightarrow>
          if c = CHR ''-'' then map_option uminus (parse_digits us 0 False cs)
          else if c = CHR ''+'' then parse_digits us 0 False cs
          else parse_digits us 0 False (c # cs))"

text \<open>
  Python's \<open>int(x)\<close> on a cell (lines 168, 231): an integer is itself, a text is parsed
  as a base-10 literal (ASCII digits, blanks around it stripped) and raises \<open>ValueError\<close>
  when it is none, NaN raises \<open>ValueError\<close>.
\<close>

definition py_int :: "cell \<Rightarrow> exn + int" where
  "py_int c =
     (case c of
        Num n \<Rightarrow> Inr n
      | Str s \<Rightarrow> (case parse_signed True s of None \<Rightarrow> Inl ValueError | Some n \<Rightarrow> Inr n)
      | NaN \<Rightarrow> Inl ValueError)"

fun digits_of_nat :: "nat \<Rightarrow> string" where
  "digits_of_nat n =
     (if n < 10 then [char_of (48 + n)]
      else digits_of_nat (n div 10) @ [char_of (48 + n mod 10)])"

text \<open>\<open>astype(str)\<close> on a cell (line 124): NaN becomes the text \<open>nan\<close>.\<close>

definition py_str :: "cell \<Rightarrow> string" where
  "py_str c =
     (case c of
        Num n \<Rightarrow> (if n < 0 then CHR ''-'' # digits_of_nat (nat (- n)) else digits_of_nat (nat n))
      | Str s \<Rightarrow> s
      | NaN \<Rightarrow> ''nan'')"

subsection \<open>The three worksheets\<close>

record producto =
  ID_Producto :: cell
  Nombre :: cell
  Categoria :: cell
  Presentacion :: cell
  Stock :: cell

text \<open>A row of \<open>Ventas\<close> or \<open>Compras\<close>; the suffix keeps the column names apart from
  those of \<open>Productos\<close>.\<close>

record movimiento =
  Fecha :: cell
  ID_Producto_m :: cell
  Nombre_m :: cell
  Cantidad :: cell
  Presentacion_m :: cell

record sheets =
  Productos :: "producto list"
  Ventas :: "movimiento list"
  Compras :: "movimiento list"

datatype outcome =
    Success
  | MissingField
  | DuplicateId
  | InsufficientStock int
  | NoProducts
  | Raised exn

subsection \<open>Registro de Productos (lines 101-136)\<close>

definition submit_producto ::
  "sheets \<Rightarrow> string \<Rightarrow> string \<Rightarrow> string \<Rightarrow> string \<Rightarrow> int \<Rightarrow> outcome \<times> sheets" where
  "submit_producto ws id_producto nombre_producto categoria presentacion stock_inicial =
     (let df_productos = Productos ws in
      if \<not> list_all (\<lambda>s. s \<noteq> []) [id_producto, nombre_producto, categoria, presentacion]
      then (MissingField, ws)
      else if id_producto \<in> set (map (py_str \<circ> ID_Producto) df_productos)
      then (DuplicateId, ws)
      else
        let nuevo_producto =
              \<lparr>ID_Producto = Str id_producto, Nombre = Str nombre_producto,
               Categoria = Str categoria, Presentacion = Str presentacion,
               Stock = Num stock_inicial\<rparr>;
            df_actualizado = df_productos @ [nuevo_producto]
        in (Success, ws\<lparr>Productos := df_actualizado\<rparr>))"

subsection \<open>Registro de Ventas (lines 147-186) and Registro de Compras (lines 200-236)\<close>

text \<open>\<open>df_productos[df_productos["Nombre"] == producto_seleccionado].iloc[0]\<close>:
  the first row of the filtered frame, \<open>IndexError\<close> when the filter leaves none.\<close>

definition producto_info :: "producto list \<Rightarrow> cell \<Rightarrow> exn + producto" where
  "producto_info df_productos producto_seleccionado =
     (case filter (\<lambda>r. cell_eq (Nombre r) producto_seleccionado) df_productos of
        [] \<Rightarrow> Inl IndexError
      | r # _ \<Rightarrow> Inr r)"

text \<open>\<open>df_productos.loc[df_productos["Nombre"] == producto_seleccionado, "Stock"] = nuevo_stock\<close>:
  the assignment goes to every row the mask selects.\<close>

definition set_stock :: "producto list \<Rightarrow> cell \<Rightarrow> int \<Rightarrow> producto list" where
  "set_stock df_productos producto_seleccionado nuevo_stock =
     map (\<lambda>r. if cell_eq (Nombre r) producto_seleccionado then r\<lparr>Stock := Num nuevo_stock\<rparr> else r)
       df_productos"

definition nuevo_movimiento :: "string \<Rightarrow> producto \<Rightarrow> int \<Rightarrow> movimiento" where
  "nuevo_movimiento fecha info cantidad =
     \<lparr>Fecha = Str fecha, ID_Producto_m = ID_Producto info, Nombre_m = Nombre info,
      Cantidad = Num cantidad, Presentacion_m = Presentacion info\<rparr>"

definition submit_venta :: "sheets \<Rightarrow> cell \<Rightarrow> int \<Rightarrow> string \<Rightarrow> outcome \<times> sheets" where
  "submit_venta ws producto_seleccionado cantidad_vendida fecha_venta =
     (let df_productos = Productos ws in
      if df_productos = [] then (NoProducts, ws)
      else case producto_info df_productos producto_seleccionado of
        Inl e \<Rightarrow> (Raised e, ws)
      | Inr info \<Rightarrow>
          (case py_int (Stock info) of
             Inl e \<Rightarrow> (Raised e, ws)
           | Inr stock_actual \<Rightarrow>
               if cantidad_vendida > stock_actual then (InsufficientStock stock_actual, ws)
               else
                 let nueva_venta = nuevo_movimiento fecha_venta info cantidad_vendida;
                     ws1 = ws\<lparr>Ventas := Ventas ws @ [nueva_venta]\<rparr>;
                     nuevo_stock = stock_actual - cantidad_vendida;
                     ws2 = ws1\<lparr>Productos :=
                                 set_stock df_productos producto_seleccionado nuevo_stock\<rparr>
                 in (Success, ws2)))"

definition submit_compra :: "sheets \<Rightarrow> cell \<Rightarrow> int \<Rightarrow> string \<Rightarrow> outcome \<times> sheets" where
  "submit_compra ws producto_seleccionado cantidad_comprada fecha_compra =
     (let df_productos = Productos ws in
      if df_productos = [] then (NoProducts, ws)
      else case producto_info df_productos producto_seleccionado of
        Inl e \<Rightarrow> (Raised e, ws)
      | Inr info \<Rightarrow>
          let nueva_compra = nuevo_movimiento fecha_compra info cantidad_comprada;
              ws1 = ws\<lparr>Compras := Compras ws @ [nueva_compra]\<rparr>
          in (case py_int (Stock info) of
                Inl e \<Rightarrow> (Raised e, ws1)
              | Inr stock_actual \<Rightarrow>
                  let nuevo_stock = stock_actual + cantidad_comprada;
                      ws2 = ws1\<lparr>Productos :=
                                  set_stock df_productos producto_seleccionado nuevo_stock\<rparr>
                  in (Success, ws2)))"

subsection \<open>Dashboard (lines 249-360)\<close>

text \<open>
  \<open>pd.to_numeric\<close> on one cell: a number is itself, NaN and the empty text are NaN
  (\<open>None\<close> here), any other text is parsed, surrounded by blanks or not, and is an error
  when it is no number.
\<close>

definition to_numeric_cell :: "cell \<Rightarrow> exn + int option" where
  "to_numeric_cell c =
     (case c of
        Num n \<Rightarrow> Inr (Some n)
      | NaN \<Rightarrow> Inr None
      | Str s \<Rightarrow>
          if s = [] then Inr None
          else (case parse_signed False s of None \<Rightarrow> Inl ValueError | Some n \<Rightarrow> Inr (Some n)))"

text \<open>\<open>pd.to_numeric(column)\<close>, with the default \<open>errors='raise'\<close>: the first cell that
  is no number raises.\<close>

fun to_numeric :: "cell list \<Rightarrow> exn + int option list" where
  "to_numeric [] = Inr []"
| "to_numeric (c # cs) =
     (case to_numeric_cell c of
        Inl e \<Rightarrow> Inl e
      | Inr v \<Rightarrow> (case to_numeric cs of Inl e \<Rightarrow> Inl e | Inr vs \<Rightarrow> Inr (v # vs)))"

text \<open>\<open>pd.to_numeric(column, errors='coerce')\<close>: a cell that is no number becomes NaN.\<close>

definition to_numeric_coerce :: "cell list \<Rightarrow> int option list" where
  "to_numeric_coerce cs =
     map (\<lambda>c. case to_numeric_cell c of Inl e \<Rightarrow> None | Inr v \<Rightarrow> v) cs"

text \<open>\<open>Series.sum()\<close> skips NaN.\<close>

definition series_sum :: "int option list \<Rightarrow> int" where
  "series_sum vs = sum_list (map (\<lambda>v. case v of None \<Rightarrow> 0 | Some n \<Rightarrow> n) vs)"

text \<open>Line 263: \<open>total_stock = pd.to_numeric(df_productos["Stock"]).sum()\<close>.\<close>

definition total_stock :: "producto list \<Rightarrow> exn + int" where
  "total_stock df_productos =
     (case to_numeric (map Stock df_productos) of
        Inl e \<Rightarrow> Inl e
      | Inr vs \<Rightarrow> Inr (series_sum vs))"

text \<open>Line 266: \<open>pd.to_numeric(df_productos["Stock"], errors='coerce').fillna(0)\<close>, the
  column the low-stock table and the charts are computed from.\<close>

definition stock_numerico :: "producto list \<Rightarrow> int list" where
  "stock_numerico df_productos =
     map (\<lambda>v. case v of None \<Rightarrow> 0 | Some n \<Rightarrow> n) (to_numeric_coerce (map Stock df_productos))"







subsection \<open>The stock invariant and example worksheets\<close>

text \<open>A row's stock is non-negative when the value the handlers read from it,
  \<open>int(producto_info["Stock"])\<close>, exists and is at least 0.\<close>

definition stock_nonneg :: "producto \<Rightarrow> bool" where
  "stock_nonneg r = (case py_int (Stock r) of Inl e \<Rightarrow> False | Inr n \<Rightarrow> 0 \<le> n)"

definition widget :: producto where
  "widget = \<lparr>ID_Producto = Str ''P1'', Nombre = Str ''Widget'', Categoria = Str ''Varios'',
             Presentacion = Str ''Caja'', Stock = Num 5\<rparr>"

definition widget_2 :: producto where
  "widget_2 = \<lparr>ID_Producto = Str ''P2'', Nombre = Str ''Widget'', Categoria = Str ''Varios'',
               Presentacion = Str ''Unidad'', Stock = Num 100\<rparr>"

definition ejemplo :: sheets where
  "ejemplo = \<lparr>Productos = [widget], Ventas = [], Compras = []\<rparr>"

definition dos_widgets :: sheets where
  "dos_widgets = \<lparr>Productos = [widget, widget_2], Ventas = [], Compras = []\<rparr>"

definition stock_abc :: sheets where
  "stock_abc = \<lparr>Productos = [widget\<lparr>Stock := Str ''abc''\<rparr>], Ventas = [], Compras = []\<rparr>"

definition stocks_5_abc_10 :: "producto list" where
  "stocks_5_abc_10 = [widget, widget_2\<lparr>Stock := Str ''abc''\<rparr>,
     \<lparr>ID_Producto = Str ''P3'', Nombre = Str ''Gadget'', Categoria = Str ''Varios'',
      Presentacion = Str ''Litro'', Stock = Num 10\<rparr>]"

definition ahora :: string where
  "ahora = ''2024-05-01 10:00:00''"



section \<open>Properties of the form handlers\<close>

subsection \<open>Lookup and stock write\<close>

lemma producto_info_nonempty: "producto_info df sel = Inr info \<Longrightarrow> df \<noteq> []"
  by (auto simp: producto_info_def)

lemma producto_info_mem:
  assumes "producto_info df sel = Inr info"
  shows "info \<in> set df" and "cell_eq (Nombre info) sel"
proof -
  from assms obtain rest where "filter (\<lambda>r. cell_eq (Nombre r) sel) df = info # rest"
    by (auto simp: producto_info_def split: list.splits)
  then have "info \<in> set (filter (\<lambda>r. cell_eq (Nombre r) sel) df)"
    by simp
  then show "info \<in> set df" and "cell_eq (Nombre info) sel"
    by simp_all
qed

lemma producto_info_set_stock:
  "producto_info df sel = Inr info \<Longrightarrow>
   producto_info (set_stock df sel n) sel = Inr (info\<lparr>Stock := Num n\<rparr>)"
proof (induction df)
  case Nil
  then show ?case by (simp add: producto_info_def)
next
  case (Cons r df)
  show ?case
  proof (cases "cell_eq (Nombre r) sel")
    case True
    with Cons.prems show ?thesis by (simp add: producto_info_def set_stock_def)
  next
    case False
    with Cons.prems have "producto_info df sel = Inr info"
      by (simp add: producto_info_def)
    from Cons.IH [OF this] False show ?thesis
      by (simp add: producto_info_def set_stock_def)
  qed
qed

lemma stock_nonneg_Num: "stock_nonneg (r\<lparr>Stock := Num n\<rparr>) = (0 \<le> n)"
  by (simp add: stock_nonneg_def py_int_def)

lemma set_stock_nonneg:
  "list_all stock_nonneg df \<Longrightarrow> 0 \<le> n \<Longrightarrow> list_all stock_nonneg (set_stock df sel n)"
  by (induction df) (simp_all add: set_stock_def stock_nonneg_Num)

subsection \<open>The handlers once the product is found and its stock read\<close>

lemma submit_venta_found:
  assumes "producto_info (Productos ws) sel = Inr info" and "py_int (Stock info) = Inr s"
  shows "submit_venta ws sel q fecha =
    (if q > s then (InsufficientStock s, ws)
     else (Success, ws\<lparr>Ventas := Ventas ws @ [nuevo_movimiento fecha info q],
                       Productos := set_stock (Productos ws) sel (s - q)\<rparr>))"
  using assms producto_info_nonempty [OF assms(1)]
  by (simp add: submit_venta_def Let_def)

lemma submit_compra_found:
  assumes "producto_info (Productos ws) sel = Inr info" and "py_int (Stock info) = Inr s"
  shows "submit_compra ws sel q fecha =
     (Success, ws\<lparr>Compras := Compras ws @ [nuevo_movimiento fecha info q],
                  Productos := set_stock (Productos ws) sel (s + q)\<rparr>)"
  using assms producto_info_nonempty [OF assms(1)]
  by (simp add: submit_compra_def Let_def)

lemma submit_venta_Success:
  assumes "submit_venta ws sel q fecha = (Success, ws')"
  obtains info s where "producto_info (Productos ws) sel = Inr info"
    and "py_int (Stock info) = Inr s" and "q \<le> s"
    and "Productos ws' = set_stock (Productos ws) sel (s - q)"
  using assms
  by (auto simp: submit_venta_def Let_def split: if_splits sum.splits)

lemma submit_compra_Success:
  assumes "submit_compra ws sel q fecha = (Success, ws')"
  obtains info s where "producto_info (Productos ws) sel = Inr info"
    and "py_int (Stock info) = Inr s"
    and "Productos ws' = set_stock (Productos ws) sel (s + q)"
  using assms
  by (auto simp: submit_compra_def Let_def split: if_splits sum.splits)

lemma submit_producto_Success:
  assumes "submit_producto ws i n c p k = (Success, ws')"
  shows "Productos ws' = Productos ws @
      [\<lparr>ID_Producto = Str i, Nombre = Str n, Categoria = Str c, Presentacion = Str p,
        Stock = Num k\<rparr>]"
  using assms
  by (auto simp: submit_producto_def Let_def split: if_splits)

subsection \<open>Facts about the example worksheets\<close>

lemma ejemplo_info: "producto_info (Productos ejemplo) (Str ''Widget'') = Inr widget"
  by (simp add: ejemplo_def producto_info_def cell_eq_def widget_def)

lemma widget_stock: "py_int (Stock widget) = Inr 5"
  by (simp add: widget_def py_int_def)

lemma ejemplo_nonneg: "list_all stock_nonneg (Productos ejemplo)"
  by (simp add: ejemplo_def stock_nonneg_def widget_stock)

subsection \<open>Grouping and the five largest sums\<close>














section \<open>The claims\<close>

text \<open>
  C1. Starting from a Productos table in which every row has stock at least 0, each
  operation that succeeds leaves such a table: registering a product (the form gives an
  initial stock of at least 0, line 114), a sale, and a purchase (the form gives a
  quantity of at least 1, line 213). A sale that would take the stock below 0 is rejected
  and writes nothing.
\<close>

theorem stock_never_negative:
  assumes inv: "list_all stock_nonneg (Productos ws)"
  shows "(0 \<le> stock_inicial \<and>
            submit_producto ws id_producto nombre categoria presentacion stock_inicial = (Success, ws1)
          \<longrightarrow> list_all stock_nonneg (Productos ws1))
    \<and> (submit_venta ws sel q fecha = (Success, ws2) \<longrightarrow> list_all stock_nonneg (Productos ws2))
    \<and> (0 < q \<and> submit_compra ws sel q fecha = (Success, ws3)
          \<longrightarrow> list_all stock_nonneg (Productos ws3))
    \<and> (producto_info (Productos ws) sel = Inr info \<and> py_int (Stock info) = Inr s \<and> s - q < 0
          \<longrightarrow> submit_venta ws sel q fecha = (InsufficientStock s, ws))"
proof (intro conjI impI)
  assume "0 \<le> stock_inicial \<and>
    submit_producto ws id_producto nombre categoria presentacion stock_inicial = (Success, ws1)"
  then have "0 \<le> stock_inicial" and "Productos ws1 = Productos ws @
      [\<lparr>ID_Producto = Str id_producto, Nombre = Str nombre, Categoria = Str categoria,
        Presentacion = Str presentacion, Stock = Num stock_inicial\<rparr>]"
    by (simp_all add: submit_producto_Success)
  then show "list_all stock_nonneg (Productos ws1)"
    using inv by (simp add: stock_nonneg_def py_int_def)
next
  assume "submit_venta ws sel q fecha = (Success, ws2)"
  then obtain s' where "q \<le> s'" and "Productos ws2 = set_stock (Productos ws) sel (s' - q)"
    by (rule submit_venta_Success)
  then show "list_all stock_nonneg (Productos ws2)"
    using inv by (simp add: set_stock_nonneg)
next
  assume a: "0 < q \<and> submit_compra ws sel q fecha = (Success, ws3)"
  then obtain info' s' where found: "producto_info (Productos ws) sel = Inr info'"
    and parsed: "py_int (Stock info') = Inr s'"
    and upd: "Productos ws3 = set_stock (Productos ws) sel (s' + q)"
    by (blast elim: submit_compra_Success)
  from found have "info' \<in> set (Productos ws)"
    by (rule producto_info_mem)
  with inv have "stock_nonneg info'" by (simp add: list_all_iff)
  with parsed have "0 \<le> s'" by (simp add: stock_nonneg_def)
  with a upd show "list_all stock_nonneg (Productos ws3)"
    using inv by (simp add: set_stock_nonneg)
next
  assume "producto_info (Productos ws) sel = Inr info \<and> py_int (Stock info) = Inr s \<and> s - q < 0"
  then show "submit_venta ws sel q fecha = (InsufficientStock s, ws)"
    by (simp add: submit_venta_found)
qed

text \<open>On the example worksheet (one Widget, stock 5): registering a Gadget with stock 0,
  selling 3 Widgets and buying 3 all succeed and keep the stocks at least 0; selling 3
  from a stock read as 2 is rejected.\<close>

theorem stock_never_negative_witness:
  "list_all stock_nonneg (Productos ejemplo)
   \<and> fst (submit_producto ejemplo ''P2'' ''Gadget'' ''Varios'' ''Litro'' 0) = Success
   \<and> list_all stock_nonneg
       (Productos (snd (submit_producto ejemplo ''P2'' ''Gadget'' ''Varios'' ''Litro'' 0)))
   \<and> fst (submit_venta ejemplo (Str ''Widget'') 3 ahora) = Success
   \<and> list_all stock_nonneg (Productos (snd (submit_venta ejemplo (Str ''Widget'') 3 ahora)))
   \<and> fst (submit_compra ejemplo (Str ''Widget'') 3 ahora) = Success
   \<and> list_all stock_nonneg (Productos (snd (submit_compra ejemplo (Str ''Widget'') 3 ahora)))
   \<and> submit_venta (snd (submit_venta ejemplo (Str ''Widget'') 3 ahora)) (Str ''Widget'') 3 ahora
       = (InsufficientStock 2, snd (submit_venta ejemplo (Str ''Widget'') 3 ahora))"
proof -
  let ?W = "Str ''Widget''"
  let ?reg = "submit_producto ejemplo ''P2'' ''Gadget'' ''Varios'' ''Litro'' 0"
  let ?venta = "submit_venta ejemplo ?W 3 ahora"
  let ?compra = "submit_compra ejemplo ?W 3 ahora"
  have reg_ok: "fst ?reg = Success"
    by (simp add: submit_producto_def ejemplo_def widget_def py_str_def)
  have venta_ok: "fst ?venta = Success"
    by (simp add: submit_venta_found [OF ejemplo_info widget_stock])
  have compra_ok: "fst ?compra = Success"
    by (simp add: submit_compra_found [OF ejemplo_info widget_stock])
  have reg: "?reg = (Success, snd ?reg)"
    using reg_ok by (simp add: prod_eq_iff)
  have venta: "?venta = (Success, snd ?venta)"
    using venta_ok by (simp add: prod_eq_iff)
  have compra: "?compra = (Success, snd ?compra)"
    using compra_ok by (simp add: prod_eq_iff)
  have info2: "producto_info (Productos (snd ?venta)) ?W = Inr (widget\<lparr>Stock := Num 2\<rparr>)"
    using producto_info_set_stock [OF ejemplo_info, of 2]
    by (simp add: submit_venta_found [OF ejemplo_info widget_stock])
  have stock2: "py_int (Stock (widget\<lparr>Stock := Num 2\<rparr>)) = Inr 2"
    by (simp add: py_int_def)
  note first = stock_never_negative [OF ejemplo_nonneg, of 0 "''P2''" "''Gadget''" "''Varios''"
      "''Litro''" "snd ?reg" ?W 3 ahora "snd ?venta" "snd ?compra" widget 5]
  from first reg have inv1: "list_all stock_nonneg (Productos (snd ?reg))"
    by blast
  from first venta have inv2: "list_all stock_nonneg (Productos (snd ?venta))"
    by blast
  from first compra have inv3: "list_all stock_nonneg (Productos (snd ?compra))"
    by simp
  note second = stock_never_negative [OF inv2, of 0 "''P2''" "''Gadget''" "''Varios''"
      "''Litro''" ejemplo ?W 3 ahora ejemplo ejemplo "widget\<lparr>Stock := Num 2\<rparr>" 2]
  from second info2 stock2
  have rejected: "submit_venta (snd ?venta) ?W 3 ahora = (InsufficientStock 2, snd ?venta)"
    by simp
  show ?thesis
    by (intro conjI ejemplo_nonneg reg_ok venta_ok compra_ok inv1 inv2 inv3 rejected)
qed

text \<open>
  C2. A sale of quantity \<open>q\<close> of a product found with stock \<open>s\<close>, with \<open>q \<le> s\<close>, succeeds;
  afterwards the product found under that name is the same row with stock \<open>s - q\<close>, and
  the Ventas log is the old log with the one new movement row appended.
\<close>

theorem sale_sufficient:
  assumes "producto_info (Productos ws) sel = Inr info"
    and "py_int (Stock info) = Inr s"
    and "q \<le> s"
  shows "fst (submit_venta ws sel q fecha) = Success
    \<and> producto_info (Productos (snd (submit_venta ws sel q fecha))) sel
        = Inr (info\<lparr>Stock := Num (s - q)\<rparr>)
    \<and> Ventas (snd (submit_venta ws sel q fecha)) = Ventas ws @ [nuevo_movimiento fecha info q]"
  using assms by (simp add: submit_venta_found producto_info_set_stock)

theorem sale_sufficient_witness:
  "producto_info (Productos ejemplo) (Str ''Widget'') = Inr widget
   \<and> py_int (Stock widget) = Inr 5 \<and> (3::int) \<le> 5
   \<and> fst (submit_venta ejemplo (Str ''Widget'') 3 ahora) = Success
   \<and> producto_info (Productos (snd (submit_venta ejemplo (Str ''Widget'') 3 ahora))) (Str ''Widget'')
       = Inr (widget\<lparr>Stock := Num 2\<rparr>)
   \<and> Ventas (snd (submit_venta ejemplo (Str ''Widget'') 3 ahora))
       = [nuevo_movimiento ahora widget 3]"
proof -
  have le: "(3::int) \<le> 5" by simp
  from sale_sufficient [OF ejemplo_info widget_stock le, of ahora]
  show ?thesis using ejemplo_info widget_stock by (simp add: ejemplo_def)
qed

text \<open>
  C3. A sale of quantity \<open>q\<close> of a product found with stock \<open>s\<close>, with \<open>q > s\<close>, reports
  insufficient stock and returns the worksheets as they were: no row is appended to
  Ventas and Productos is unchanged.
\<close>

theorem sale_insufficient_rejected:
  assumes "producto_info (Productos ws) sel = Inr info"
    and "py_int (Stock info) = Inr s"
    and "q > s"
  shows "submit_venta ws sel q fecha = (InsufficientStock s, ws)"
  using assms by (simp add: submit_venta_found)

theorem sale_insufficient_rejected_witness:
  "producto_info (Productos ejemplo) (Str ''Widget'') = Inr widget
   \<and> py_int (Stock widget) = Inr 5 \<and> (10::int) > 5
   \<and> submit_venta ejemplo (Str ''Widget'') 10 ahora = (InsufficientStock 5, ejemplo)"
proof -
  have gt: "(10::int) > 5" by simp
  from sale_insufficient_rejected [OF ejemplo_info widget_stock gt, of ahora]
  show ?thesis using ejemplo_info widget_stock by simp
qed



text \<open>
  C5. The claim: the lookup takes the first row whose name matches, and only that row's
  stock is replaced, other rows of the same name included among the unchanged ones.
  The lookup does take the first match, but the write on lines 183 and 233 goes through
  the same name mask and reaches every row of that name. With two products named
  Widget (the registration form accepts that: it compares ids only), a sale of 3 from
  the first (stock 5) sets the stock of both to 2.
\<close>

theorem sale_overwrites_same_name:
  "submit_producto ejemplo ''P2'' ''Widget'' ''Varios'' ''Unidad'' 100 = (Success, dos_widgets)
   \<and> producto_info (Productos dos_widgets) (Str ''Widget'') = Inr widget
   \<and> Productos (snd (submit_venta dos_widgets (Str ''Widget'') 3 ahora))
       = [widget\<lparr>Stock := Num 2\<rparr>, widget_2\<lparr>Stock := Num 2\<rparr>]
   \<and> widget_2\<lparr>Stock := Num 2\<rparr> \<noteq> widget_2"
  by (simp add: submit_producto_def submit_venta_def producto_info_def set_stock_def cell_eq_def
      py_int_def ejemplo_def dos_widgets_def widget_def widget_2_def py_str_def)

text \<open>
  C6. The claim: \<open>total_stock\<close> is the sum of the stocks with every non-numeric or missing
  value counted as 0, so 15 over the stocks 5, "abc", 10. Line 263 converts with the
  default \<open>errors='raise'\<close>, so that column raises \<open>ValueError\<close>; the coercion of line
  266, whose sum would be 15, comes after \<open>total_stock\<close> is computed.
\<close>

theorem total_stock_raises:
  "map Stock stocks_5_abc_10 = [Num 5, Str ''abc'', Num 10]
   \<and> total_stock stocks_5_abc_10 = Inl ValueError
   \<and> sum_list (stock_numerico stocks_5_abc_10) = 15"
  by (simp add: total_stock_def stock_numerico_def to_numeric_coerce_def to_numeric_cell_def
      parse_signed_def strip_def is_space_def digit_val_def stocks_5_abc_10_def widget_def
      widget_2_def)








text \<open>
  C10. The claim: in a sale and in a purchase the stock of the product found is parsed
  before anything is written, so a stock that is no integer raises and leaves both
  tables unchanged. The sale does so (line 168). The purchase appends the row to
  Compras and writes that sheet (lines 226-228) before it parses the stock (line 231):
  with the stock "abc" the exception leaves a purchase row whose quantity was never
  added to the stock.
\<close>

theorem purchase_writes_before_parsing:
  "py_int (Stock (widget\<lparr>Stock := Str ''abc''\<rparr>)) = Inl ValueError
   \<and> submit_compra stock_abc (Str ''Widget'') 3 ahora
     = (Raised ValueError,
        stock_abc\<lparr>Compras := [nuevo_movimiento ahora (widget\<lparr>Stock := Str ''abc''\<rparr>) 3]\<rparr>)
   \<and> submit_venta stock_abc (Str ''Widget'') 3 ahora = (Raised ValueError, stock_abc)"
  by (simp add: submit_compra_def submit_venta_def producto_info_def cell_eq_def py_int_def
      parse_signed_def strip_def is_space_def digit_val_def stock_abc_def widget_def)

end
